theory Spec2Isabelle
  imports Main "HOL-Library.Word" "HOL-Library.Sublist"
begin

unbundle bit_operations_syntax

section \<open>PKCE generation (src/oauth.ts, generatePKCE)\<close>

text \<open>
  \<^verbatim>\<open>Buffer.toString("base64url")\<close> is the platform's encoder: three bytes become four
  sextets, a trailing group of one or two bytes becomes two or three sextets, every
  sextet is looked up in the URL-safe alphabet, and no padding is written.
\<close>

type_synonym byte = "8 word"

definition b64url_alphabet :: string where
  "b64url_alphabet = ''ABCDEFGHIJKLMNOPQRSTUVWXYZabcdefghijklmnopqrstuvwxyz0123456789-_''"

definition b64url_char :: "6 word \<Rightarrow> char" where
  "b64url_char s = b64url_alphabet ! unat s"

fun base64url :: "byte list \<Rightarrow> string" where
  "base64url (a # b # c # rest) =
     [b64url_char (ucast (drop_bit 2 a)),
      b64url_char (ucast (push_bit 4 a OR drop_bit 4 b)),
      b64url_char (ucast (push_bit 2 b OR drop_bit 6 c)),
      b64url_char (ucast c)] @ base64url rest"
| "base64url [a, b] =
     [b64url_char (ucast (drop_bit 2 a)),
      b64url_char (ucast (push_bit 4 a OR drop_bit 4 b)),
      b64url_char (ucast (push_bit 2 b))]"
| "base64url [a] =
     [b64url_char (ucast (drop_bit 2 a)),
      b64url_char (ucast (push_bit 4 a))]"
| "base64url [] = []"

text \<open>
  The character class of \<^verbatim>\<open>/[^a-zA-Z0-9\-._~]/g\<close>: a character survives the
  \<^verbatim>\<open>replace\<close> exactly when it is a letter, a digit or one of \<^verbatim>\<open>- . _ ~\<close>.
\<close>

definition unreserved :: "char \<Rightarrow> bool" where
  "unreserved ch =
     (let n = (of_char ch :: nat) in
        (97 \<le> n \<and> n \<le> 122) \<or> (65 \<le> n \<and> n \<le> 90) \<or> (48 \<le> n \<and> n \<le> 57)
        \<or> ch = CHR ''-'' \<or> ch = CHR ''.'' \<or> ch = CHR ''_'' \<or> ch = CHR ''~'')"

text \<open>\<^verbatim>\<open>createHash("sha256").update(s)\<close> hashes the UTF-8 bytes of the string.\<close>

definition utf8 :: "string \<Rightarrow> byte list" where
  "utf8 s = map of_char s"

record PKCEPair =
  codeVerifier :: string
  codeChallenge :: string

text \<open>
  The two platform inputs of \<^verbatim>\<open>generatePKCE\<close> are parameters: \<open>sha256\<close> is the digest
  function of the crypto module and \<open>verifierBytes\<close> is what \<^verbatim>\<open>crypto.randomBytes(32)\<close>
  returned.
\<close>

definition generatePKCE :: "(byte list \<Rightarrow> byte list) \<Rightarrow> byte list \<Rightarrow> PKCEPair" where
  "generatePKCE sha256 verifierBytes =
     (let codeVerifier = filter unreserved (base64url verifierBytes);
          hash = sha256 (utf8 codeVerifier);
          codeChallenge = base64url hash
      in \<lparr>codeVerifier = codeVerifier, codeChallenge = codeChallenge\<rparr>)"

section \<open>Errors\<close>

text \<open>
  Every failure of the program is a JavaScript \<^verbatim>\<open>Error\<close> told apart by its message
  only. The model has one constructor for each place that throws and for each kind of
  platform exception, carrying what the message interpolates; \<open>message\<close> renders the
  text the source builds.
\<close>

datatype error =
    InvalidURL string
  | FetchRejected string
  | HttpStatus nat string string string
  | BodyNotJSON string
  | MetadataMissingFields
  | DiscoveryFailed string string
  | NoRegistrationEndpoint
  | NoClientId
  | MissingAccessToken
  | StateMismatch
  | AuthorizationError string "string option"
  | CallbackTimeout
  | PortInUse nat
  | ServerStartFailed string
  | FileSystemError string
  | NullProperty string

text \<open>Decimal rendering of a number inside a template literal.\<close>

fun dec :: "nat \<Rightarrow> string" where
  "dec n = (if n < 10 then [''0123456789'' ! n] else dec (n div 10) @ [''0123456789'' ! (n mod 10)])"

declare dec.simps [simp del]

text \<open>
  A value of type \<^verbatim>\<open>string | undefined\<close> or \<^verbatim>\<open>string | null\<close> is truthy when it is
  present and not the empty string.
\<close>

fun truthy :: "string option \<Rightarrow> bool" where
  "truthy None = False"
| "truthy (Some s) = (s \<noteq> [])"

text \<open>The em dash of the state-mismatch message, as its UTF-8 bytes.\<close>

definition em_dash :: string where
  "em_dash = [CHR 0xE2, CHR 0x80, CHR 0x94]"

fun message :: "error \<Rightarrow> string" where
  "message (InvalidURL input) = ''Invalid URL''"
| "message (FetchRejected msg) = msg"
| "message (HttpStatus st stText u body) =
     ''HTTP '' @ dec st @ '' '' @ stText @ '' from '' @ u @ (if body \<noteq> [] then '': '' @ body else [])"
| "message (BodyNotJSON msg) = msg"
| "message MetadataMissingFields =
     ''OAuth metadata missing required fields (authorization_endpoint, token_endpoint)''"
| "message (DiscoveryFailed u cause) = ''Failed to discover OAuth endpoints from '' @ u @ '': '' @ cause"
| "message NoRegistrationEndpoint =
     ''Server does not support dynamic client registration (no registration_endpoint in metadata)''"
| "message NoClientId = ''Client registration did not return a client_id''"
| "message MissingAccessToken = ''Token response missing access_token''"
| "message StateMismatch = ''OAuth state mismatch '' @ em_dash @ '' possible CSRF attack''"
| "message (AuthorizationError err descr) =
     ''Authorization error: '' @ err @ (if truthy descr then '' - '' @ the descr else [])"
| "message CallbackTimeout = ''Timed out waiting for authorization callback (120s)''"
| "message (PortInUse port) =
     ''Port '' @ dec port @ '' is already in use. Try a different port with --callback-port''"
| "message (ServerStartFailed msg) = ''Failed to start callback server: '' @ msg"
| "message (FileSystemError msg) = msg"
| "message (NullProperty name) =
     ''Cannot read properties of null (reading '' @ [CHR 0x27] @ name @ [CHR 0x27] @ '')''"

section \<open>Data (src/oauth.ts, src/storage.ts, src/server.ts)\<close>

record OAuthEndpoints =
  authorizationEndpoint :: string
  tokenEndpoint :: string
  registrationEndpoint :: "string option"

text \<open>
  \<^verbatim>\<open>RegisteredClient\<close> (oauth.ts) and \<^verbatim>\<open>ClientInfo\<close> (storage.ts) are the same
  interface field by field; one record stands for both.
\<close>

record RegisteredClient =
  clientId :: string
  clientSecret :: "string option"
  clientIdIssuedAt :: "int option"
  clientSecretExpiresAt :: "int option"

type_synonym ClientInfo = RegisteredClient

text \<open>The \<^verbatim>\<open>scope\<close> field of \<^verbatim>\<open>TokenResponse\<close> is named \<open>response_scope\<close> here.\<close>

record TokenResponse =
  access_token :: string
  refresh_token :: "string option"
  expires_in :: "int option"
  response_scope :: "string option"
  token_type :: string

record Tokens =
  accessToken :: string
  refreshToken :: "string option"
  expiresAt :: "int option"
  scope :: "string option"

text \<open>The \<^verbatim>\<open>codeVerifier\<close> field of \<^verbatim>\<open>AuthEntry\<close> is named \<open>entry_codeVerifier\<close> here.\<close>

record AuthEntry =
  tokens :: "Tokens option"
  clientInfo :: "ClientInfo option"
  entry_codeVerifier :: "string option"
  oauthState :: "string option"
  serverUrl :: "string option"

type_synonym AuthFile = "string \<rightharpoonup> AuthEntry"

record CallbackResult =
  code :: string
  state :: string

section \<open>The platform and the outside world\<close>

text \<open>
  A parsed JSON response body, cast to \<^verbatim>\<open>Record<string, unknown>\<close> in the source. The
  source reads each field through a cast to \<^verbatim>\<open>string | undefined\<close> or
  \<^verbatim>\<open>number | undefined\<close>; the model reads a field at the type it is cast to. The
  numbers read are counts of seconds and are integers here; no statement below depends on
  their arithmetic.

  The body can be the JSON value \<^verbatim>\<open>null\<close>: reading a property of it throws a
  \<^verbatim>\<open>TypeError\<close>, which every function below writes out before it reads a field. The two
  selectors give \<open>None\<close> there, so that a statement can say of any body that a field is
  missing. A body that is a number, a string, a boolean or an array has none of the
  properties read and is an object without fields here.
\<close>

datatype json_value =
    JSON_null
  | JSON_object (string_field: "string \<Rightarrow> string option") (number_field: "string \<Rightarrow> int option")
where
  "string_field JSON_null = (\<lambda>name. None)"
| "number_field JSON_null = (\<lambda>name. None)"

text \<open>What is handed to \<^verbatim>\<open>JSON.stringify\<close> as a request body.\<close>

datatype json_doc = JStr string | JArr "json_doc list" | JObj "(string \<times> json_doc) list"

datatype body = JsonBody json_doc | FormBody "(string \<times> string) list"

record request =
  req_url :: string
  req_method :: string
  req_headers :: "(string \<times> string) list"
  req_body :: "body option"

text \<open>
  A response: \<open>body_text\<close> is what \<^verbatim>\<open>res.text()\<close> resolves to (\<open>None\<close> when it
  rejects), \<open>body_json\<close> is what \<^verbatim>\<open>res.json()\<close> resolves to (\<open>Inl\<close> the message of
  the exception when the body is not JSON, \<open>Inr JSON_null\<close> when the body is \<^verbatim>\<open>null\<close>).
\<close>

record response =
  status :: nat
  statusText :: string
  body_text :: "string option"
  body_json :: "string + json_value"

text \<open>What \<^verbatim>\<open>fetch\<close> settles with: it rejects with the message of its exception, or it
  resolves with a response.\<close>

datatype fetch_result = Rejected string | Response response

text \<open>An incoming request of the callback server, with its query already parsed:
  \<open>searchParams r name\<close> is \<^verbatim>\<open>new URL(req.url, base).searchParams.get(name)\<close>.\<close>

record incoming =
  in_url :: "string option"
  searchParams :: "string \<Rightarrow> string option"

text \<open>
  What can happen to the callback server after it was created: a request arrives, the
  timer fires, or the server emits an \<^verbatim>\<open>error\<close> event (with \<^verbatim>\<open>err.code\<close> and
  \<^verbatim>\<open>err.message\<close>). The server emits that event when the bind fails and, once bound,
  when accepting a connection fails.
\<close>

datatype server_event = Incoming incoming | TimerFires | ErrorEvent "string option" string

text \<open>
  Everything the program asks of its platform and of the outside world. The pure
  library functions (URL parsing, SHA-256, JSON parsing, \<^verbatim>\<open>path.dirname\<close>) and the
  answers of the environment (random values, the clock, the file system, the network,
  the events of the callback server) are fields; \<open>None\<close> or \<open>Inl\<close> stands for an
  exception of the platform function.
\<close>

record world =
  URL_origin :: "string \<Rightarrow> string option"
  URL_href :: "string \<Rightarrow> string \<Rightarrow> string option"
  URL_with_query :: "string \<Rightarrow> (string \<times> string) list \<Rightarrow> string option"
  sha256 :: "byte list \<Rightarrow> byte list"
  JSON_parse :: "string \<Rightarrow> string + AuthFile"
  dirname :: "string \<Rightarrow> string"
  randomBytes :: "nat \<Rightarrow> byte list"
  randomUUID :: string
  Date_now :: int
  process_platform :: string
  readFileSync :: "string \<Rightarrow> string + string"
  existsSync :: "string \<Rightarrow> bool"
  mkdirSync :: "string \<Rightarrow> string option"
  writeFileSync :: "string \<Rightarrow> AuthFile \<Rightarrow> string option"
  fetch :: "request \<Rightarrow> fetch_result"
  listen :: "nat \<Rightarrow> (string option \<times> string) option"
  callback_events :: "server_event list"

section \<open>Effects and results\<close>

text \<open>
  The effects the program has on the outside world, in the order it makes them: HTTP
  requests, directories created, documents written (with the file mode), shell commands
  started, and the port the callback server is asked to listen on. Console output is not
  recorded.
\<close>

datatype effect =
    Fetch request
  | Mkdir string
  | WriteFile string AuthFile nat
  | Exec string
  | Listen nat

text \<open>
  An asynchronous function throws, returns, or stays pending for ever (its promise is
  never settled).
\<close>

datatype 'a completion = Throws error | Returns 'a | Pending

type_synonym 'a io = "effect list \<times> 'a completion"

definition io_bind :: "'a io \<Rightarrow> ('a \<Rightarrow> 'b io) \<Rightarrow> 'b io" where
  "io_bind m f =
     (case m of
        (es, Throws e) \<Rightarrow> (es, Throws e)
      | (es, Pending) \<Rightarrow> (es, Pending)
      | (es, Returns a) \<Rightarrow> (case f a of (es', r) \<Rightarrow> (es @ es', r)))"

definition io_return :: "'a \<Rightarrow> 'a io" where
  "io_return a = ([], Returns a)"

definition io_throw :: "error \<Rightarrow> 'a io" where
  "io_throw e = ([], Throws e)"


section \<open>HTTP helpers and the OAuth steps (src/oauth.ts)\<close>

definition ok :: "response \<Rightarrow> bool" where
  "ok res = (200 \<le> status res \<and> status res \<le> 299)"

text \<open>
  \<^verbatim>\<open>fetchJSON\<close>: one request; a rejected \<^verbatim>\<open>fetch\<close> and a rejected \<^verbatim>\<open>res.json()\<close>
  propagate, a status outside 200..299 throws with the body text (the empty string when
  reading it fails).
\<close>

definition fetchJSON :: "world \<Rightarrow> request \<Rightarrow> json_value io" where
  "fetchJSON w req =
     ([Fetch req],
      case fetch w req of
        Rejected msg \<Rightarrow> Throws (FetchRejected msg)
      | Response res \<Rightarrow>
          if \<not> ok res then
            (let body = (case body_text res of None \<Rightarrow> [] | Some t \<Rightarrow> t)
             in Throws (HttpStatus (status res) (statusText res) (req_url req) body))
          else
            (case body_json res of
               Inl msg \<Rightarrow> Throws (BodyNotJSON msg)
             | Inr obj \<Rightarrow> Returns obj))"

definition get_request :: "string \<Rightarrow> request" where
  "get_request u = \<lparr>req_url = u, req_method = ''GET'', req_headers = [], req_body = None\<rparr>"

text \<open>
  \<^verbatim>\<open>discoverOAuthEndpoints\<close>. The two \<^verbatim>\<open>new URL\<close> calls stand before the \<^verbatim>\<open>try\<close>:
  their exception leaves the function as it is. Whatever is thrown inside the
  \<^verbatim>\<open>try\<close> is caught and thrown again as the discovery error built from the
  well-known URL and the message of the cause: what \<^verbatim>\<open>fetchJSON\<close> threw, the
  \<^verbatim>\<open>TypeError\<close> of reading \<^verbatim>\<open>authorization_endpoint\<close> from a body that is \<^verbatim>\<open>null\<close>,
  or the missing-fields error.
\<close>

definition discoverOAuthEndpoints :: "world \<Rightarrow> string \<Rightarrow> OAuthEndpoints io" where
  "discoverOAuthEndpoints w = (\<lambda>serverUrl.
      case URL_origin w serverUrl of
        None \<Rightarrow> io_throw (InvalidURL serverUrl)
      | Some origin \<Rightarrow>
          (case URL_href w ''/.well-known/oauth-authorization-server'' origin of
             None \<Rightarrow> io_throw (InvalidURL origin)
           | Some wellKnownUrl \<Rightarrow>
               (case fetchJSON w (get_request wellKnownUrl) of
                  (es, Throws err) \<Rightarrow> (es, Throws (DiscoveryFailed wellKnownUrl (message err)))
                | (es, Pending) \<Rightarrow> (es, Pending)
                | (es, Returns JSON_null) \<Rightarrow>
                    (es, Throws (DiscoveryFailed wellKnownUrl
                           (message (NullProperty ''authorization_endpoint''))))
                | (es, Returns metadata) \<Rightarrow>
                    (let authorizationEndpoint = string_field metadata ''authorization_endpoint'';
                         tokenEndpoint = string_field metadata ''token_endpoint''
                     in if \<not> truthy authorizationEndpoint \<or> \<not> truthy tokenEndpoint then
                          (es, Throws (DiscoveryFailed wellKnownUrl (message MetadataMissingFields)))
                        else
                          (es, Returns
                             \<lparr>authorizationEndpoint = the authorizationEndpoint,
                              tokenEndpoint = the tokenEndpoint,
                              registrationEndpoint = string_field metadata ''registration_endpoint''\<rparr>)))))"

definition registerClient :: "world \<Rightarrow> string \<Rightarrow> string \<Rightarrow> string \<Rightarrow> RegisteredClient io" where
  "registerClient w = (\<lambda>registrationEndpoint redirectUri clientName.
      let body = JObj
            [(''redirect_uris'', JArr [JStr redirectUri]),
             (''client_name'', JStr clientName),
             (''grant_types'', JArr [JStr ''authorization_code'', JStr ''refresh_token'']),
             (''response_types'', JArr [JStr ''code'']),
             (''token_endpoint_auth_method'', JStr ''none'')]
      in io_bind
           (fetchJSON w
              \<lparr>req_url = registrationEndpoint, req_method = ''POST'',
               req_headers = [(''Content-Type'', ''application/json'')],
               req_body = Some (JsonBody body)\<rparr>)
           (\<lambda>result.
              if result = JSON_null then io_throw (NullProperty ''client_id'')
              else
              let clientId = string_field result ''client_id''
              in if \<not> truthy clientId then io_throw NoClientId
                 else io_return
                   \<lparr>clientId = the clientId,
                    clientSecret = string_field result ''client_secret'',
                    clientIdIssuedAt = number_field result ''client_id_issued_at'',
                    clientSecretExpiresAt = number_field result ''client_secret_expires_at''\<rparr>))"

text \<open>
  \<^verbatim>\<open>buildAuthorizationUrl\<close>: the URL constructor, six \<^verbatim>\<open>searchParams.set\<close> calls and
  \<^verbatim>\<open>href\<close> are one platform function of the endpoint and the parameters set.
\<close>

definition buildAuthorizationUrl ::
  "world \<Rightarrow> string \<Rightarrow> string \<Rightarrow> string \<Rightarrow> string \<Rightarrow> string \<Rightarrow> string io" where
  "buildAuthorizationUrl w = (\<lambda>authorizationEndpoint clientId redirectUri codeChallenge state.
      case URL_with_query w authorizationEndpoint
             [(''response_type'', ''code''),
              (''client_id'', clientId),
              (''redirect_uri'', redirectUri),
              (''code_challenge'', codeChallenge),
              (''code_challenge_method'', ''S256''),
              (''state'', state)] of
        None \<Rightarrow> io_throw (InvalidURL authorizationEndpoint)
      | Some href \<Rightarrow> io_return href)"

definition token_request :: "string \<Rightarrow> string \<Rightarrow> string \<Rightarrow> string \<Rightarrow> string \<Rightarrow> request" where
  "token_request = (\<lambda>tokenEndpoint code codeVerifier clientId redirectUri.
     \<lparr>req_url = tokenEndpoint, req_method = ''POST'',
      req_headers = [(''Content-Type'', ''application/x-www-form-urlencoded'')],
      req_body = Some (FormBody
        [(''grant_type'', ''authorization_code''),
         (''code'', code),
         (''code_verifier'', codeVerifier),
         (''client_id'', clientId),
         (''redirect_uri'', redirectUri)])\<rparr>)"

text \<open>
  \<^verbatim>\<open>exchangeCodeForTokens\<close>. The last field is \<^verbatim>\<open>(result.token_type as string) || "Bearer"\<close>:
  the right operand is taken whenever the left one is falsy.
\<close>

definition exchangeCodeForTokens ::
  "world \<Rightarrow> string \<Rightarrow> string \<Rightarrow> string \<Rightarrow> string \<Rightarrow> string \<Rightarrow> TokenResponse io" where
  "exchangeCodeForTokens w = (\<lambda>tokenEndpoint code codeVerifier clientId redirectUri.
     io_bind
       (fetchJSON w (token_request tokenEndpoint code codeVerifier clientId redirectUri))
       (\<lambda>result.
          if result = JSON_null then io_throw (NullProperty ''access_token'')
          else
          let accessToken = string_field result ''access_token''
          in if \<not> truthy accessToken then io_throw MissingAccessToken
             else io_return
               \<lparr>access_token = the accessToken,
                refresh_token = string_field result ''refresh_token'',
                expires_in = number_field result ''expires_in'',
                response_scope = string_field result ''scope'',
                token_type =
                  (if truthy (string_field result ''token_type'')
                   then the (string_field result ''token_type'') else ''Bearer'')\<rparr>))"

section \<open>The auth store (src/storage.ts)\<close>

text \<open>
  \<^verbatim>\<open>readAuthFile\<close>: the body of the \<^verbatim>\<open>try\<close> first, then the function, whose
  \<^verbatim>\<open>catch\<close> turns every exception of the body into the empty object. The value parsed
  is taken at the type it is cast to, a mapping from names to entries: content that is
  JSON but no object (\<^verbatim>\<open>null\<close>, an array) has no value here.
\<close>

definition readAuthFile_try :: "world \<Rightarrow> string \<Rightarrow> error + AuthFile" where
  "readAuthFile_try w filePath =
     (case readFileSync w filePath of
        Inl msg \<Rightarrow> Inl (FileSystemError msg)
      | Inr content \<Rightarrow>
          (case JSON_parse w content of
             Inl msg \<Rightarrow> Inl (BodyNotJSON msg)
           | Inr data \<Rightarrow> Inr data))"

definition readAuthFile :: "world \<Rightarrow> string \<Rightarrow> AuthFile" where
  "readAuthFile w filePath =
     (case readAuthFile_try w filePath of
        Inl err \<Rightarrow> Map.empty
      | Inr data \<Rightarrow> data)"

text \<open>
  \<^verbatim>\<open>writeAuthFile\<close>: the directory is created when it does not exist, then the document
  is written with mode \<^verbatim>\<open>0o600\<close>. The text written is
  \<^verbatim>\<open>JSON.stringify(data, null, 2) + "\n"\<close>; the effect records the document.
\<close>

definition writeAuthFile :: "world \<Rightarrow> AuthFile \<Rightarrow> string \<Rightarrow> unit io" where
  "writeAuthFile w data filePath =
     (let dir = dirname w filePath
      in io_bind
           (if \<not> existsSync w dir then
              (case mkdirSync w dir of
                 Some msg \<Rightarrow> io_throw (FileSystemError msg)
               | None \<Rightarrow> ([Mkdir dir], Returns ()))
            else io_return ())
           (\<lambda>_. case writeFileSync w filePath data of
                   Some msg \<Rightarrow> io_throw (FileSystemError msg)
                 | None \<Rightarrow> ([WriteFile filePath data (6 * 64)], Returns ())))"

text \<open>
  \<^verbatim>\<open>authData[key] = entry\<close> on the object that \<^verbatim>\<open>JSON.parse\<close> or \<^verbatim>\<open>{}\<close> made. The
  document written later holds the own properties of the object. For every key but one
  the assignment creates or replaces the own property. For the key \<^verbatim>\<open>__proto__\<close>,
  when the object has no own property of that name, the assignment runs the setter
  inherited from \<^verbatim>\<open>Object.prototype\<close>: the entry becomes the prototype of the object and
  no own property is created.
\<close>

definition assign :: "AuthFile \<Rightarrow> string \<Rightarrow> AuthEntry \<Rightarrow> AuthFile" where
  "assign obj key entry =
     (if key = ''__proto__'' \<and> obj key = None then obj else obj(key \<mapsto> entry))"

section \<open>The callback listener (src/server.ts)\<close>

datatype outcome = Resolve CallbackResult | Reject error

datatype page = NotFoundText | ERROR_HTML | SUCCESS_HTML

text \<open>
  The state that \<^verbatim>\<open>startCallbackServer\<close> closes over: the \<^verbatim>\<open>settled\<close> flag, the calls
  of \<^verbatim>\<open>resolve\<close> and \<^verbatim>\<open>reject\<close> made so far, whether the server socket is listening,
  whether the timer is still pending, and the replies written to the browser.
\<close>

record listener =
  settled :: bool
  delivered :: "outcome list"
  listening :: bool
  timer_armed :: bool
  replies :: "(nat \<times> page) list"

text \<open>\<^verbatim>\<open>cleanup\<close>: \<^verbatim>\<open>clearTimeout(timeout); server.close()\<close>.\<close>

definition cleanup :: "listener \<Rightarrow> listener" where
  "cleanup l = l\<lparr>timer_armed := False, listening := False\<rparr>"

text \<open>\<^verbatim>\<open>if (!settled) { settled = true; resolve(..) }\<close>, and the same with \<^verbatim>\<open>reject\<close>.\<close>

definition settle :: "outcome \<Rightarrow> listener \<Rightarrow> listener" where
  "settle out l =
     (if \<not> settled l then l\<lparr>settled := True, delivered := delivered l @ [out]\<rparr> else l)"

definition reply :: "nat \<Rightarrow> page \<Rightarrow> listener \<Rightarrow> listener" where
  "reply st pg l = l\<lparr>replies := replies l @ [(st, pg)]\<rparr>"

text \<open>The request handler given to \<^verbatim>\<open>http.createServer\<close>.\<close>

definition on_request :: "incoming \<Rightarrow> listener \<Rightarrow> listener" where
  "on_request req l =
     (if \<not> (case in_url req of None \<Rightarrow> False | Some u \<Rightarrow> prefix ''/callback'' u) then
        reply 404 NotFoundText l
      else
        (let code = searchParams req ''code'';
             state = searchParams req ''state'';
             error = searchParams req ''error'';
             errorDescription = searchParams req ''error_description''
         in if truthy error then
              settle (Reject (AuthorizationError (the error) errorDescription))
                (cleanup (reply 200 ERROR_HTML l))
            else if \<not> truthy code \<or> \<not> truthy state then
              reply 400 ERROR_HTML l
            else
              settle (Resolve \<lparr>code = the code, state = the state\<rparr>)
                (cleanup (reply 200 SUCCESS_HTML l))))"

text \<open>The timer callback; it runs only when the timer was not cleared before.\<close>

definition on_timeout :: "listener \<Rightarrow> listener" where
  "on_timeout l =
     (if timer_armed l then settle (Reject CallbackTimeout) (cleanup l) else l)"

text \<open>The handler of the server's \<^verbatim>\<open>error\<close> event: \<^verbatim>\<open>clearTimeout(timeout)\<close>, then the
  guarded \<^verbatim>\<open>reject\<close>. It does not call \<^verbatim>\<open>server.close()\<close>.\<close>

definition on_error :: "nat \<Rightarrow> string option \<Rightarrow> string \<Rightarrow> listener \<Rightarrow> listener" where
  "on_error port err_code err_message l =
     settle
       (Reject (if err_code = Some ''EADDRINUSE'' then PortInUse port
                else ServerStartFailed err_message))
       (l\<lparr>timer_armed := False\<rparr>)"

fun step :: "nat \<Rightarrow> listener \<Rightarrow> server_event \<Rightarrow> listener" where
  "step port l (Incoming req) = on_request req l"
| "step port l TimerFires = on_timeout l"
| "step port l (ErrorEvent err_code err_message) = on_error port err_code err_message l"

text \<open>The listener when the promise executor has run: server created, timer set.\<close>

definition created :: listener where
  "created = \<lparr>settled = False, delivered = [], listening = False, timer_armed = True, replies = []\<rparr>"

text \<open>
  \<^verbatim>\<open>startCallbackServer\<close>. \<open>bind\<close> is the answer to \<^verbatim>\<open>server.listen\<close>: \<open>Some\<close> the
  \<^verbatim>\<open>error\<close> event of a failed bind (the socket never listens), or \<open>None\<close> when the
  socket is bound. A bound server then handles the events of the outside world in their
  order; the timer set by \<^verbatim>\<open>setTimeout\<close> fires after them unless it was cleared. A
  handler runs whatever the state of the socket: a connection opened before the close can
  still send a request. The result is the final state of the listener.
\<close>

definition startCallbackServer ::
  "nat \<Rightarrow> (string option \<times> string) option \<Rightarrow> server_event list \<Rightarrow> listener" where
  "startCallbackServer port bind events =
     (case bind of
        Some (err_code, err_message) \<Rightarrow> step port created (ErrorEvent err_code err_message)
      | None \<Rightarrow> foldl (step port) (created\<lparr>listening := True\<rparr>) (events @ [TimerFires]))"

text \<open>What \<^verbatim>\<open>await\<close> on the promise gives: its first settlement, if there is any.\<close>

definition awaited :: "listener \<Rightarrow> CallbackResult completion" where
  "awaited l =
     (case delivered l of
        [] \<Rightarrow> Pending
      | Resolve r # _ \<Rightarrow> Returns r
      | Reject e # _ \<Rightarrow> Throws e)"

section \<open>The flow (src/index.ts, main)\<close>

definition quoted :: "string \<Rightarrow> string" where
  "quoted s = CHR 0x22 # s @ [CHR 0x22]"

definition openBrowser :: "world \<Rightarrow> string \<Rightarrow> unit io" where
  "openBrowser w url =
     (let platform = process_platform w;
          cmd =
            (if platform = ''darwin'' then ''open '' @ quoted url
             else if platform = ''win32'' then ''start '' @ quoted [] @ '' '' @ quoted url
             else ''xdg-open '' @ quoted url @ '' 2>/dev/null || sensible-browser '' @ quoted url
                  @ '' 2>/dev/null || echo '' @ quoted ''Open this URL in your browser:'')
      in ([Exec cmd], Returns ()))"

text \<open>The value \<^verbatim>\<open>parseArgs\<close> returns; its \<^verbatim>\<open>output\<close> field is named \<open>output_path\<close> here.\<close>

record config =
  serverName :: string
  url :: string
  clientName :: string
  callbackPort :: nat
  output_path :: string

text \<open>
  \<^verbatim>\<open>main\<close> from the configuration on. The entry object is shared between the two
  writes: the second assignment stores the entry with the tokens set and the two
  transient fields deleted.
\<close>

definition main :: "world \<Rightarrow> config \<Rightarrow> unit io" where
  "main w config =
     (let redirectUri = ''http://localhost:'' @ dec (callbackPort config) @ ''/callback'';
          authData = readAuthFile w (output_path config)
      in
      io_bind (discoverOAuthEndpoints w (url config)) (\<lambda>endpoints.
      if \<not> truthy (registrationEndpoint endpoints) then io_throw NoRegistrationEndpoint
      else
      io_bind (registerClient w (the (registrationEndpoint endpoints)) redirectUri
                 (clientName config)) (\<lambda>client.
      let pkce = generatePKCE (sha256 w) (randomBytes w 32);
          state = randomUUID w;
          entry =
            \<lparr>tokens = None,
             clientInfo = Some
               \<lparr>clientId = clientId client,
                clientSecret = clientSecret client,
                clientIdIssuedAt = clientIdIssuedAt client,
                clientSecretExpiresAt = clientSecretExpiresAt client\<rparr>,
             entry_codeVerifier = Some (codeVerifier pkce),
             oauthState = Some state,
             serverUrl = Some (url config)\<rparr>;
          authData1 = assign authData (serverName config) entry
      in
      io_bind (writeAuthFile w authData1 (output_path config)) (\<lambda>_.
      io_bind (buildAuthorizationUrl w (authorizationEndpoint endpoints) (clientId client)
                 redirectUri (codeChallenge pkce) state) (\<lambda>authUrl.
      io_bind (openBrowser w authUrl) (\<lambda>_.
      io_bind ([Listen (callbackPort config)],
               awaited (startCallbackServer (callbackPort config)
                          (listen w (callbackPort config)) (callback_events w))) (\<lambda>callback.
      if CallbackResult.state callback \<noteq> state then io_throw StateMismatch
      else
      io_bind (exchangeCodeForTokens w (tokenEndpoint endpoints) (code callback)
                 (codeVerifier pkce) (clientId client) redirectUri) (\<lambda>tokenResponse.
      let now = Date_now w div 1000;
          entry2 = entry
            \<lparr>tokens := Some
               \<lparr>accessToken = access_token tokenResponse,
                refreshToken = refresh_token tokenResponse,
                expiresAt =
                  (case expires_in tokenResponse of
                     None \<Rightarrow> None
                   | Some n \<Rightarrow> if n = 0 then None else Some (now + n)),
                scope = response_scope tokenResponse\<rparr>,
             entry_codeVerifier := None,
             oauthState := None\<rparr>;
          authData2 = assign authData1 (serverName config) entry2
      in
      io_bind (writeAuthFile w authData2 (output_path config)) (\<lambda>_.
      io_return ())))))))))"

section \<open>Notions used in the statements\<close>

text \<open>The documents written by a run, in the order of the writes.\<close>

definition written :: "effect list \<Rightarrow> AuthFile list" where
  "written log = concat (map (\<lambda>e. case e of WriteFile p d m \<Rightarrow> [d] | _ \<Rightarrow> []) log)"

text \<open>A field of a response is missing or empty.\<close>

fun missing_or_empty :: "string option \<Rightarrow> bool" where
  "missing_or_empty None = True"
| "missing_or_empty (Some s) = (s = [])"

text \<open>
  The failure condition of endpoint discovery in the words of the specification: the
  request for the well-known URL fails, or its status is not a 2xx one, or its body is not
  JSON, or one of the two required fields is missing or empty.
\<close>

definition discovery_failure_condition :: "world \<Rightarrow> string \<Rightarrow> bool" where
  "discovery_failure_condition w wellKnownUrl =
     (case fetch w (get_request wellKnownUrl) of
        Rejected msg \<Rightarrow> True
      | Response res \<Rightarrow>
          (status res < 200 \<or> 299 < status res)
          \<or> (case body_json res of
                Inl msg \<Rightarrow> True
              | Inr metadata \<Rightarrow>
                  missing_or_empty (string_field metadata ''authorization_endpoint'')
                  \<or> missing_or_empty (string_field metadata ''token_endpoint'')))"

fun is_error_event :: "server_event \<Rightarrow> bool" where
  "is_error_event (ErrorEvent err_code err_message) = True"
| "is_error_event ev = False"

text \<open>
  Three invariants of the listener. The first: \<^verbatim>\<open>resolve\<close> or \<^verbatim>\<open>reject\<close> was called
  once when \<^verbatim>\<open>settled\<close> is set and never otherwise, and the timer is cleared only when
  \<^verbatim>\<open>settled\<close> is set. The second: when the timer is cleared the socket is closed. The
  third: when \<^verbatim>\<open>settled\<close> is set the socket is closed. The last two hold as long as the
  server emits no \<^verbatim>\<open>error\<close> event.
\<close>

definition settled_once :: "listener \<Rightarrow> bool" where
  "settled_once l =
     (length (delivered l) = (if settled l then 1 else 0) \<and> (\<not> timer_armed l \<longrightarrow> settled l))"

definition closed_when_disarmed :: "listener \<Rightarrow> bool" where
  "closed_when_disarmed l = (\<not> timer_armed l \<longrightarrow> \<not> listening l)"

definition closed_when_settled :: "listener \<Rightarrow> bool" where
  "closed_when_settled l = (settled l \<longrightarrow> \<not> listening l)"

section \<open>A concrete scenario\<close>

text \<open>
  The end-to-end scenario of the specification: discovery answers with the three
  endpoints of \<^verbatim>\<open>https://ex.com\<close>, registration answers with \<^verbatim>\<open>cid123\<close>, the browser
  comes back with \<^verbatim>\<open>authcode1\<close> and the generated state, the token endpoint answers with
  \<^verbatim>\<open>tok1\<close>. The auth file holds one entry, for another server. The worlds of the
  witnesses and counterexamples below are this one with a field changed.
\<close>

definition ok_response :: "json_value \<Rightarrow> fetch_result" where
  "ok_response obj =
     Response \<lparr>status = 200, statusText = ''OK'', body_text = None, body_json = Inr obj\<rparr>"

definition scenario_metadata :: json_value where
  "scenario_metadata =
     JSON_object
       ([''authorization_endpoint'' \<mapsto> ''https://ex.com/auth'', ''token_endpoint'' \<mapsto> ''https://ex.com/token'', ''registration_endpoint'' \<mapsto> ''https://ex.com/register''])
       (Map.empty)"

definition scenario_registration :: json_value where
  "scenario_registration =
     JSON_object
       ([''client_id'' \<mapsto> ''cid123''])
       (Map.empty)"

definition scenario_tokens :: json_value where
  "scenario_tokens =
     JSON_object
       ([''access_token'' \<mapsto> ''tok1'', ''token_type'' \<mapsto> ''Bearer''])
       ([''expires_in'' \<mapsto> 3600])"

definition other_entry :: AuthEntry where
  "other_entry =
     \<lparr>tokens = Some \<lparr>accessToken = ''old'', refreshToken = None, expiresAt = None, scope = None\<rparr>,
      clientInfo = None, entry_codeVerifier = None, oauthState = None,
      serverUrl = Some ''https://other.example/mcp''\<rparr>"

definition good_callback :: incoming where
  "good_callback =
     \<lparr>in_url = Some ''/callback?code=authcode1&state=uuid-1'',
      searchParams = [''code'' \<mapsto> ''authcode1'', ''state'' \<mapsto> ''uuid-1'']\<rparr>"

definition scenario :: world where
  "scenario =
     \<lparr>URL_origin =
        (\<lambda>u. if u = ''https://ex.com/mcp'' then Some ''https://ex.com''
             else if u = ''file:///tmp/x'' then Some ''null''
             else None),
      URL_href = (\<lambda>path base. if base = ''null'' then None else Some (base @ path)),
      URL_with_query =
        (\<lambda>u params. Some (u @ ''?'' @ concat (map (\<lambda>(k, v). k @ ''='' @ v @ ''&'') params))),
      sha256 = (\<lambda>bytes. replicate 32 0),
      JSON_parse = (\<lambda>content. Inr [''other'' \<mapsto> other_entry]),
      dirname = (\<lambda>path. ''/data''),
      randomBytes = (\<lambda>n. replicate n 0),
      randomUUID = ''uuid-1'',
      Date_now = 1700000000999,
      process_platform = ''linux'',
      readFileSync = (\<lambda>path. Inr ''{...}''),
      existsSync = (\<lambda>path. True),
      mkdirSync = (\<lambda>path. None),
      writeFileSync = (\<lambda>path data. None),
      fetch = (\<lambda>req. case req_body req of
                 None \<Rightarrow> ok_response scenario_metadata
               | Some (JsonBody doc) \<Rightarrow> ok_response scenario_registration
               | Some (FormBody params) \<Rightarrow> ok_response scenario_tokens),
      listen = (\<lambda>port. None),
      callback_events = [Incoming good_callback]\<rparr>"

definition figma :: config where
  "figma =
     \<lparr>serverName = ''figma'', url = ''https://ex.com/mcp'', clientName = ''Codex'',
      callbackPort = 19876, output_path = ''/data/mcp-auth.json''\<rparr>"

text \<open>A callback whose state is not the generated one.\<close>

definition forged_callback :: incoming where
  "forged_callback =
     \<lparr>in_url = Some ''/callback?code=abc&state=X'',
      searchParams = [''code'' \<mapsto> ''abc'', ''state'' \<mapsto> ''X'']\<rparr>"

text \<open>A callback without the \<^verbatim>\<open>state\<close> parameter.\<close>

definition incomplete_callback :: incoming where
  "incomplete_callback =
     \<lparr>in_url = Some ''/callback?code=abc'', searchParams = [''code'' \<mapsto> ''abc'']\<rparr>"

definition metadata_without_registration :: json_value where
  "metadata_without_registration =
     JSON_object
       ([''authorization_endpoint'' \<mapsto> ''https://ex.com/auth'', ''token_endpoint'' \<mapsto> ''https://ex.com/token''])
       (Map.empty)"

definition tokens_with_empty_type :: json_value where
  "tokens_with_empty_type =
     JSON_object
       ([''access_token'' \<mapsto> ''tok1'', ''token_type'' \<mapsto> []])
       (Map.empty)"

definition tokens_with_all_fields :: json_value where
  "tokens_with_all_fields =
     JSON_object
       ([''access_token'' \<mapsto> ''tok2'', ''token_type'' \<mapsto> ''DPoP'', ''refresh_token'' \<mapsto> ''ref2'', ''scope'' \<mapsto> ''files:read''])
       ([''expires_in'' \<mapsto> 60])"

definition not_found :: fetch_result where
  "not_found = Response
     \<lparr>status = 404, statusText = ''Not Found'', body_text = Some [],
      body_json = Inl ''Unexpected end of JSON input''\<rparr>"

section \<open>Properties of the PKCE generator\<close>

lemma b64url_alphabet_length: "length b64url_alphabet = 64"
  by (simp add: b64url_alphabet_def)

lemma b64url_char_in_alphabet: "b64url_char s \<in> set b64url_alphabet"
proof -
  have "unat s < 2 ^ 6"
    using unsigned_less [of s, where ?'a = nat] by simp
  then have "unat s < length b64url_alphabet"
    by (simp add: b64url_alphabet_length)
  then show ?thesis
    unfolding b64url_char_def by (rule nth_mem)
qed

lemma base64url_in_alphabet: "set (base64url bs) \<subseteq> set b64url_alphabet"
  by (induction bs rule: base64url.induct) (simp_all add: b64url_char_in_alphabet)

lemma alphabet_unreserved: "\<forall>ch \<in> set b64url_alphabet. unreserved ch"
  by (simp add: b64url_alphabet_def unreserved_def)

lemma alphabet_no_padding: "CHR ''='' \<notin> set b64url_alphabet"
  by (simp add: b64url_alphabet_def)

lemma base64url_unreserved: "filter unreserved (base64url bs) = base64url bs"
  using base64url_in_alphabet [of bs] alphabet_unreserved
  by (auto simp: filter_id_conv)

lemma base64url_no_padding: "CHR ''='' \<notin> set (base64url bs)"
  using base64url_in_alphabet [of bs] alphabet_no_padding by blast

lemma base64url_length: "length (base64url bs) = (4 * length bs + 2) div 3"
  by (induction bs rule: base64url.induct) simp_all

lemma generatePKCE_verifier: "codeVerifier (generatePKCE digest bs) = base64url bs"
  by (simp add: generatePKCE_def Let_def base64url_unreserved)

text \<open>
  Claim C4. For every pair returned by \<^verbatim>\<open>generatePKCE\<close>, whatever the random bytes
  were, the challenge is the unpadded base64url encoding of the SHA-256 digest of the
  verifier (so it is determined by the verifier alone), and the padding character
  \<^verbatim>\<open>=\<close> occurs neither in the verifier nor in the challenge.
\<close>

theorem generatePKCE_challenge_of_verifier:
  "codeChallenge (generatePKCE digest bs)
     = base64url (digest (utf8 (codeVerifier (generatePKCE digest bs))))
   \<and> CHR ''='' \<notin> set (codeVerifier (generatePKCE digest bs))
   \<and> CHR ''='' \<notin> set (codeChallenge (generatePKCE digest bs))"
proof -
  have "codeChallenge (generatePKCE digest bs)
          = base64url (digest (utf8 (codeVerifier (generatePKCE digest bs))))"
    by (simp add: generatePKCE_def Let_def)
  moreover have "CHR ''='' \<notin> set (codeVerifier (generatePKCE digest bs))"
    by (simp add: generatePKCE_verifier base64url_no_padding)
  moreover have "CHR ''='' \<notin> set (codeChallenge (generatePKCE digest bs))"
    by (simp add: generatePKCE_def Let_def base64url_no_padding)
  ultimately show ?thesis by simp
qed

text \<open>
  Claim C5. Whatever the 32 random bytes are, every character of the verifier is a
  letter, a digit or one of \<^verbatim>\<open>- . _ ~\<close>, and the verifier is between 43 and 128
  characters long (it is exactly 43 characters long: nothing is stripped).
\<close>

theorem generatePKCE_verifier_alphabet_and_length:
  assumes "length bs = 32"
  shows "set (codeVerifier (generatePKCE digest bs))
           \<subseteq> set ''ABCDEFGHIJKLMNOPQRSTUVWXYZabcdefghijklmnopqrstuvwxyz0123456789-._~''
         \<and> 43 \<le> length (codeVerifier (generatePKCE digest bs))
         \<and> length (codeVerifier (generatePKCE digest bs)) \<le> 128"
proof -
  have "set (base64url bs) \<subseteq> set b64url_alphabet"
    by (rule base64url_in_alphabet)
  moreover have "set b64url_alphabet
      \<subseteq> set ''ABCDEFGHIJKLMNOPQRSTUVWXYZabcdefghijklmnopqrstuvwxyz0123456789-._~''"
    by (simp add: b64url_alphabet_def)
  moreover have "length (base64url bs) = 43"
    using assms by (simp add: base64url_length)
  ultimately show ?thesis
    by (simp add: generatePKCE_verifier)
qed

theorem generatePKCE_verifier_witness:
  "length (replicate 32 (0 :: byte)) = 32
   \<and> codeVerifier (generatePKCE (\<lambda>m. m) (replicate 32 0)) = replicate 43 (CHR ''A'')
   \<and> 43 \<le> length (codeVerifier (generatePKCE (\<lambda>m. m) (replicate 32 0)))
   \<and> length (codeVerifier (generatePKCE (\<lambda>m. m) (replicate 32 0))) \<le> 128"
proof -
  have len: "length (replicate 32 (0 :: byte)) = 32" by simp
  have "codeVerifier (generatePKCE (\<lambda>m. m) (replicate 32 0)) = replicate 43 (CHR ''A'')"
    by (simp add: generatePKCE_verifier numeral_eq_Suc b64url_char_def b64url_alphabet_def)
  then show ?thesis
    using generatePKCE_verifier_alphabet_and_length [OF len, of "\<lambda>m. m"] by simp
qed

section \<open>Sequencing and the effects of each step\<close>

lemma fst_io_bind:
  "fst (io_bind m f) = fst m @ (case snd m of Returns a \<Rightarrow> fst (f a) | _ \<Rightarrow> [])"
  by (cases m) (auto simp: io_bind_def split: completion.splits prod.splits)

lemma snd_io_bind:
  "snd (io_bind m f) =
     (case snd m of Returns a \<Rightarrow> snd (f a) | Throws e \<Rightarrow> Throws e | Pending \<Rightarrow> Pending)"
  by (cases m) (auto simp: io_bind_def split: completion.splits prod.splits)

lemma in_fst_io_bind:
  "x \<in> set (fst (io_bind m f)) \<longleftrightarrow>
     x \<in> set (fst m) \<or> (\<exists>a. snd m = Returns a \<and> x \<in> set (fst (f a)))"
  by (cases m) (auto simp: io_bind_def split: completion.splits prod.splits)

lemma snd_io_bind_Returns:
  "snd (io_bind m f) = Returns b \<longleftrightarrow> (\<exists>a. snd m = Returns a \<and> snd (f a) = Returns b)"
  by (cases m) (auto simp: io_bind_def split: completion.splits prod.splits)

lemma fst_io_throw [simp]: "fst (io_throw e) = []"
  by (simp add: io_throw_def)

lemma snd_io_throw [simp]: "snd (io_throw e) = Throws e"
  by (simp add: io_throw_def)

lemma fst_io_return [simp]: "fst (io_return a) = []"
  by (simp add: io_return_def)

lemma snd_io_return [simp]: "snd (io_return a) = Returns a"
  by (simp add: io_return_def)

lemma truthy_iff: "truthy x \<longleftrightarrow> \<not> missing_or_empty x"
  by (cases x) simp_all

lemma truthy_Some_the: "truthy x \<Longrightarrow> x = Some (the x)"
  by (cases x) simp_all

lemma truthy_the: "truthy x \<Longrightarrow> the x \<noteq> []"
  by (cases x) simp_all

lemma truthy_not_null: "truthy (string_field r name) \<Longrightarrow> r \<noteq> JSON_null"
  by (cases r) simp_all

lemma discover_effects:
  "fst (discoverOAuthEndpoints w u) = [] \<or>
   (\<exists>wk. fst (discoverOAuthEndpoints w u) = [Fetch (get_request wk)])"
  by (auto simp: discoverOAuthEndpoints_def fetchJSON_def io_throw_def Let_def
      split: option.splits prod.splits completion.splits json_value.splits)

lemma registerClient_effects:
  "\<exists>r. fst (registerClient w re ru cn) = [Fetch r] \<and> (\<exists>d. req_body r = Some (JsonBody d))"
  by (simp add: registerClient_def Let_def fst_io_bind fetchJSON_def io_throw_def io_return_def
      split: completion.splits)

lemma exchange_effects:
  "fst (exchangeCodeForTokens w te c v ci ru) = [Fetch (token_request te c v ci ru)]"
  by (simp add: exchangeCodeForTokens_def Let_def fst_io_bind fetchJSON_def io_throw_def
        io_return_def split: completion.splits)

lemma writeAuthFile_effects:
  "set (fst (writeAuthFile w d p)) \<subseteq> {Mkdir (dirname w p), WriteFile p d (6 * 64)}"
  by (auto simp: writeAuthFile_def Let_def fst_io_bind snd_io_bind io_throw_def io_return_def
      split: completion.splits option.splits if_splits)

lemma build_effects: "fst (buildAuthorizationUrl w a b c d e) = []"
  by (simp add: buildAuthorizationUrl_def io_throw_def io_return_def split: option.splits)

lemma openBrowser_effects: "\<exists>c. fst (openBrowser w u) = [Exec c]"
  by (simp add: openBrowser_def Let_def)

lemma no_listen_discover: "Listen p \<notin> set (fst (discoverOAuthEndpoints w u))"
  using discover_effects [of w u] by auto

lemma no_listen_register: "Listen p \<notin> set (fst (registerClient w re ru cn))"
  using registerClient_effects [of w re ru cn] by auto

lemma no_listen_write: "Listen p \<notin> set (fst (writeAuthFile w d q))"
  using writeAuthFile_effects [of w d q] by auto

lemma no_listen_open: "Listen p \<notin> set (fst (openBrowser w u))"
  using openBrowser_effects [of w u] by auto

lemma no_form_discover:
  "Fetch r \<in> set (fst (discoverOAuthEndpoints w u)) \<Longrightarrow> req_body r = None"
  using discover_effects [of w u] by (auto simp: get_request_def)

lemma no_form_register:
  "Fetch r \<in> set (fst (registerClient w re ru cn)) \<Longrightarrow> \<exists>d. req_body r = Some (JsonBody d)"
  using registerClient_effects [of w re ru cn] by auto

lemma no_fetch_write: "Fetch r \<notin> set (fst (writeAuthFile w d q))"
  using writeAuthFile_effects [of w d q] by auto

lemma no_fetch_open: "Fetch r \<notin> set (fst (openBrowser w u))"
  using openBrowser_effects [of w u] by auto

lemma write_write: "WriteFile p d m \<in> set (fst (writeAuthFile w d' q)) \<Longrightarrow> d = d'"
  using writeAuthFile_effects [of w d' q] by auto

lemma no_write_discover: "WriteFile p d m \<notin> set (fst (discoverOAuthEndpoints w u))"
  using discover_effects [of w u] by auto

lemma no_write_register: "WriteFile p d m \<notin> set (fst (registerClient w re ru cn))"
  using registerClient_effects [of w re ru cn] by auto

lemma no_write_open: "WriteFile p d m \<notin> set (fst (openBrowser w u))"
  using openBrowser_effects [of w u] by auto

lemma no_write_exchange: "WriteFile p d m \<notin> set (fst (exchangeCodeForTokens w a b c dd e))"
  by (simp add: exchange_effects)

lemma written_Nil [simp]: "written [] = []"
  by (simp add: written_def)

lemma written_Cons [simp]:
  "written (e # es) = (case e of WriteFile p d m \<Rightarrow> [d] | _ \<Rightarrow> []) @ written es"
  by (simp add: written_def)

lemma written_append [simp]: "written (xs @ ys) = written xs @ written ys"
  by (simp add: written_def)

lemma written_discover [simp]: "written (fst (discoverOAuthEndpoints w u)) = []"
  using discover_effects [of w u] by auto

lemma written_register [simp]: "written (fst (registerClient w re ru cn)) = []"
  using registerClient_effects [of w re ru cn] by auto

lemma written_open [simp]: "written (fst (openBrowser w u)) = []"
  using openBrowser_effects [of w u] by auto

lemma written_exchange [simp]: "written (fst (exchangeCodeForTokens w a b c d e)) = []"
  by (simp add: exchange_effects)

lemma written_build [simp]: "written (fst (buildAuthorizationUrl w a b c d e)) = []"
  by (simp add: build_effects)

lemma written_write:
  "snd (writeAuthFile w d p) = Returns u \<Longrightarrow> written (fst (writeAuthFile w d p)) = [d]"
  by (auto simp: writeAuthFile_def Let_def fst_io_bind snd_io_bind io_return_def io_throw_def
      split: option.splits if_splits completion.splits)

lemma in_written: "d \<in> set (written log) \<Longrightarrow> \<exists>p m. WriteFile p d m \<in> set log"
  by (induction log) (auto split: effect.splits)

lemma exchange_access_token:
  "snd (exchangeCodeForTokens w a b c d e) = Returns r \<Longrightarrow> access_token r \<noteq> []"
  by (auto simp: exchangeCodeForTokens_def Let_def snd_io_bind_Returns io_return_def io_throw_def
      split: if_splits option.splits dest: truthy_the)

lemma assign_frame: "k \<noteq> key \<Longrightarrow> assign obj key entry k = obj k"
  by (simp add: assign_def)

lemma assign_hit:
  "key \<noteq> ''__proto__'' \<or> obj key \<noteq> None \<Longrightarrow> assign obj key entry key = Some entry"
  by (auto simp: assign_def)

lemma assign_present:
  "assign obj key entry key \<noteq> None \<longleftrightarrow> key \<noteq> ''__proto__'' \<or> obj key \<noteq> None"
  by (auto simp: assign_def)

text \<open>The unfoldings that evaluate a run in a concrete world.\<close>

lemmas eval_defs = discoverOAuthEndpoints_def registerClient_def exchangeCodeForTokens_def
  buildAuthorizationUrl_def writeAuthFile_def openBrowser_def readAuthFile_def readAuthFile_try_def
  fetchJSON_def get_request_def token_request_def ok_def io_return_def io_throw_def
  startCallbackServer_def created_def on_request_def on_timeout_def on_error_def settle_def
  cleanup_def reply_def awaited_def assign_def

lemmas scenario_defs = scenario_def figma_def ok_response_def scenario_metadata_def
  scenario_registration_def scenario_tokens_def good_callback_def forged_callback_def
  incomplete_callback_def metadata_without_registration_def tokens_with_empty_type_def
  tokens_with_all_fields_def not_found_def other_entry_def

lemma dec_404: "dec 404 = ''404''"
  by (simp add: dec.simps)

section \<open>Properties of the callback listener\<close>

lemma settled_once_step: "settled_once l \<Longrightarrow> settled_once (step port l ev)"
  by (cases ev)
     (auto simp: settled_once_def on_request_def on_timeout_def on_error_def settle_def
        cleanup_def reply_def Let_def split: option.splits)

lemma settled_once_foldl: "settled_once l \<Longrightarrow> settled_once (foldl (step port) l evs)"
  by (induction evs arbitrary: l) (simp_all add: settled_once_step)

lemma settled_once_bound: "settled_once (created\<lparr>listening := True\<rparr>)"
  by (simp add: settled_once_def created_def)

lemma timer_settles: "settled_once l \<Longrightarrow> settled (on_timeout l)"
  by (auto simp: settled_once_def on_timeout_def settle_def cleanup_def)

lemma startCallbackServer_one_outcome:
  "length (delivered (startCallbackServer port bind evs)) = 1"
proof (cases bind)
  case None
  let ?l = "foldl (step port) (created\<lparr>listening := True\<rparr>) evs"
  have inv: "settled_once ?l"
    by (rule settled_once_foldl) (rule settled_once_bound)
  then have "settled (on_timeout ?l)"
    by (rule timer_settles)
  moreover have "settled_once (on_timeout ?l)"
    using settled_once_step [OF inv, of port TimerFires] by simp
  ultimately show ?thesis
    using None by (simp add: startCallbackServer_def settled_once_def)
next
  case (Some e)
  then show ?thesis
    by (cases e) (simp add: startCallbackServer_def on_error_def settle_def created_def)
qed

lemma closed_when_disarmed_step:
  "closed_when_disarmed l \<Longrightarrow> \<not> is_error_event ev \<Longrightarrow> closed_when_disarmed (step port l ev)"
  by (cases ev)
     (auto simp: closed_when_disarmed_def on_request_def on_timeout_def settle_def cleanup_def
        reply_def Let_def split: option.splits)

lemma closed_when_disarmed_foldl:
  "closed_when_disarmed l \<Longrightarrow> \<forall>ev \<in> set evs. \<not> is_error_event ev
     \<Longrightarrow> closed_when_disarmed (foldl (step port) l evs)"
  by (induction evs arbitrary: l) (simp_all add: closed_when_disarmed_step)

lemma on_timeout_closes: "closed_when_disarmed l \<Longrightarrow> \<not> listening (on_timeout l)"
  by (auto simp: closed_when_disarmed_def on_timeout_def settle_def cleanup_def)

lemma startCallbackServer_closed:
  assumes "bind = None \<longrightarrow> (\<forall>ev \<in> set evs. \<not> is_error_event ev)"
  shows "\<not> listening (startCallbackServer port bind evs)"
proof (cases bind)
  case None
  with assms have "closed_when_disarmed (foldl (step port) (created\<lparr>listening := True\<rparr>) evs)"
    by (intro closed_when_disarmed_foldl) (simp_all add: closed_when_disarmed_def created_def)
  then show ?thesis
    using None by (simp add: startCallbackServer_def on_timeout_closes)
next
  case (Some e)
  then show ?thesis
    by (cases e) (simp add: startCallbackServer_def on_error_def settle_def created_def)
qed

lemma closed_when_settled_step:
  "closed_when_settled l \<Longrightarrow> \<not> is_error_event ev \<Longrightarrow> closed_when_settled (step port l ev)"
  by (cases ev)
     (auto simp: closed_when_settled_def on_request_def on_timeout_def settle_def cleanup_def
        reply_def Let_def split: option.splits)

lemma closed_when_settled_foldl:
  "closed_when_settled l \<Longrightarrow> \<forall>ev \<in> set evs. \<not> is_error_event ev
     \<Longrightarrow> closed_when_settled (foldl (step port) l evs)"
  by (induction evs arbitrary: l) (simp_all add: closed_when_settled_step)

text \<open>
  On the exit paths through a request or the timeout the socket is closed at the moment
  the outcome is delivered: after any events of a bound server, none of them an
  \<^verbatim>\<open>error\<close> event, an outcome was delivered only if the socket is closed.
\<close>

lemma outcome_delivered_socket_closed:
  assumes "\<forall>ev \<in> set evs. \<not> is_error_event ev"
    and "delivered (foldl (step port) (created\<lparr>listening := True\<rparr>) evs) \<noteq> []"
  shows "\<not> listening (foldl (step port) (created\<lparr>listening := True\<rparr>) evs)"
proof -
  let ?l = "foldl (step port) (created\<lparr>listening := True\<rparr>) evs"
  have "settled_once ?l"
    by (rule settled_once_foldl) (rule settled_once_bound)
  with assms(2) have "settled ?l"
    by (auto simp: settled_once_def split: if_splits)
  moreover have "closed_when_settled ?l"
    using assms(1) by (intro closed_when_settled_foldl) (simp_all add: closed_when_settled_def created_def)
  ultimately show ?thesis
    by (simp add: closed_when_settled_def)
qed

text \<open>The promise of the listener is settled in every execution: \<^verbatim>\<open>await\<close> returns.\<close>

lemma awaited_not_pending: "awaited (startCallbackServer port bind evs) \<noteq> Pending"
  using startCallbackServer_one_outcome [of port bind evs]
  by (auto simp: awaited_def split: list.splits outcome.splits)

section \<open>The claims about the callback listener\<close>

text \<open>
  The listener has four exit paths: a request with an \<^verbatim>\<open>error\<close> parameter, a request
  with code and state, the timeout, and the \<^verbatim>\<open>error\<close> event of the server. Exactly one
  outcome is delivered in every execution, however many requests arrive and wherever the
  timer fires among them (\<open>startCallbackServer_one_outcome\<close>). On the first three
  paths the socket is closed when the outcome is delivered
  (\<open>outcome_delivered_socket_closed\<close>) and at the end (\<open>startCallbackServer_closed\<close>),
  and after a failed bind no socket listens. An execution with several requests and the
  timer among them:
\<close>

lemma listener_requests_and_timer_example:
  "startCallbackServer 19876 None
     [Incoming incomplete_callback, Incoming good_callback, TimerFires, Incoming forged_callback]
     = \<lparr>settled = True,
        delivered = [Resolve \<lparr>code = ''authcode1'', state = ''uuid-1''\<rparr>],
        listening = False, timer_armed = False,
        replies = [(400, ERROR_HTML), (200, SUCCESS_HTML), (200, SUCCESS_HTML)]\<rparr>"
  by (simp add: eval_defs scenario_defs Let_def)

text \<open>
  Claim C2 at the fourth exit path: the server is bound and listening, and then emits an
  \<^verbatim>\<open>error\<close> event (accepting a connection failed). The handler of that event clears the
  timer and rejects, and it does not call \<^verbatim>\<open>server.close()\<close> as \<^verbatim>\<open>cleanup\<close> does on the
  three other paths: the one outcome is delivered while the socket is still listening, and
  since the timer is cleared nothing closes it later. The claim says that the listening
  socket is closed on every exit path.
\<close>

theorem listener_error_event_leaves_socket_listening:
  "startCallbackServer 19876 None [ErrorEvent (Some ''EMFILE'') ''accept EMFILE'']
     = \<lparr>settled = True, delivered = [Reject (ServerStartFailed ''accept EMFILE'')],
        listening = True, timer_armed = False, replies = []\<rparr>"
  by (simp add: startCallbackServer_def created_def on_error_def on_timeout_def settle_def)

section \<open>The claims about the OAuth steps\<close>

text \<open>
  Claim C7, as stated: \<^verbatim>\<open>discoverOAuthEndpoints\<close> fails exactly when the request for the
  well-known URL fails, answers with a status that is not a 2xx one, has a body that is
  not JSON, or lacks a required field, and then with the discovery error that names the
  well-known URL. It also fails when one of the two \<^verbatim>\<open>new URL\<close> calls before the
  \<^verbatim>\<open>try\<close> throws: the first for a server URL that is no URL, the second for a server URL
  whose origin is opaque (a \<^verbatim>\<open>file:\<close> URL has the origin \<^verbatim>\<open>null\<close>, which is no base
  URL). In both cases no request is made, and the error is the constructor's own,
  unwrapped and with no URL in its message.
\<close>

theorem discover_invalid_url_not_wrapped:
  "discoverOAuthEndpoints scenario ''not a url'' = ([], Throws (InvalidURL ''not a url''))
   \<and> discoverOAuthEndpoints scenario ''file:///tmp/x'' = ([], Throws (InvalidURL ''null''))
   \<and> message (InvalidURL ''not a url'') = ''Invalid URL''
   \<and> message (InvalidURL ''null'') = ''Invalid URL''"
  by (simp add: discoverOAuthEndpoints_def scenario_def io_throw_def)

text \<open>
  Claim C7, amended. For a server URL for which both \<^verbatim>\<open>new URL\<close> calls before the
  \<^verbatim>\<open>try\<close> succeed (the constructor accepts the server URL, and it accepts the well-known
  path against the origin of the server URL), \<^verbatim>\<open>discoverOAuthEndpoints\<close> makes one
  request, to the well-known URL. It fails exactly when that request fails, answers with a
  status that is not a 2xx one, has a body that is not JSON, or has
  \<^verbatim>\<open>authorization_endpoint\<close> or \<^verbatim>\<open>token_endpoint\<close> missing or empty. Every failure is the
  discovery error whose message is the fixed prefix, the well-known URL, a colon and the
  message of the cause, and the cause is the one at hand: the message of the rejected
  request; the \<^verbatim>\<open>HTTP\<close> line with the status, the status text, the well-known URL and the
  body text; the message of the JSON exception; the \<^verbatim>\<open>TypeError\<close> of the field read when
  the body is \<^verbatim>\<open>null\<close>; the missing-fields message otherwise. When it does not fail it
  returns the three fields of the body, \<^verbatim>\<open>registration_endpoint\<close> absent when the body
  has none.
\<close>

theorem discoverOAuthEndpoints_outcome:
  assumes origin: "URL_origin w u = Some origin"
    and href: "URL_href w ''/.well-known/oauth-authorization-server'' origin = Some wellKnownUrl"
  shows "fst (discoverOAuthEndpoints w u) = [Fetch (get_request wellKnownUrl)]
       \<and> ((\<exists>e. snd (discoverOAuthEndpoints w u) = Throws e)
            \<longleftrightarrow> discovery_failure_condition w wellKnownUrl)
       \<and> (\<forall>msg. fetch w (get_request wellKnownUrl) = Rejected msg \<longrightarrow>
            snd (discoverOAuthEndpoints w u) = Throws (DiscoveryFailed wellKnownUrl msg))
       \<and> (\<forall>res. fetch w (get_request wellKnownUrl) = Response res
              \<and> (status res < 200 \<or> 299 < status res) \<longrightarrow>
            snd (discoverOAuthEndpoints w u) = Throws (DiscoveryFailed wellKnownUrl
              (''HTTP '' @ dec (status res) @ '' '' @ statusText res @ '' from '' @ wellKnownUrl
               @ (case body_text res of
                    None \<Rightarrow> []
                  | Some t \<Rightarrow> if t = [] then [] else '': '' @ t))))
       \<and> (\<forall>res msg. fetch w (get_request wellKnownUrl) = Response res
              \<and> 200 \<le> status res \<and> status res \<le> 299 \<and> body_json res = Inl msg \<longrightarrow>
            snd (discoverOAuthEndpoints w u) = Throws (DiscoveryFailed wellKnownUrl msg))
       \<and> (\<forall>res. fetch w (get_request wellKnownUrl) = Response res
              \<and> 200 \<le> status res \<and> status res \<le> 299 \<and> body_json res = Inr JSON_null \<longrightarrow>
            snd (discoverOAuthEndpoints w u) = Throws (DiscoveryFailed wellKnownUrl
              (''Cannot read properties of null (reading '' @ [CHR 0x27]
               @ ''authorization_endpoint'' @ [CHR 0x27] @ '')'')))
       \<and> (\<forall>res fields numbers. fetch w (get_request wellKnownUrl) = Response res
              \<and> 200 \<le> status res \<and> status res \<le> 299
              \<and> body_json res = Inr (JSON_object fields numbers)
              \<and> (missing_or_empty (fields ''authorization_endpoint'')
                   \<or> missing_or_empty (fields ''token_endpoint'')) \<longrightarrow>
            snd (discoverOAuthEndpoints w u) = Throws (DiscoveryFailed wellKnownUrl
              ''OAuth metadata missing required fields (authorization_endpoint, token_endpoint)''))
       \<and> (\<forall>e. snd (discoverOAuthEndpoints w u) = Throws e \<longrightarrow>
            (\<exists>cause. e = DiscoveryFailed wellKnownUrl cause
               \<and> message e = ''Failed to discover OAuth endpoints from '' @ wellKnownUrl
                                @ '': '' @ cause))
       \<and> (\<not> discovery_failure_condition w wellKnownUrl \<longrightarrow>
            (\<exists>res metadata endpoints.
               fetch w (get_request wellKnownUrl) = Response res
               \<and> body_json res = Inr metadata
               \<and> snd (discoverOAuthEndpoints w u) = Returns endpoints
               \<and> Some (authorizationEndpoint endpoints)
                    = string_field metadata ''authorization_endpoint''
               \<and> Some (tokenEndpoint endpoints) = string_field metadata ''token_endpoint''
               \<and> registrationEndpoint endpoints
                    = string_field metadata ''registration_endpoint''))"
proof -
  let ?d = "discoverOAuthEndpoints w u"
  let ?wk = "get_request wellKnownUrl"
  note unfold = discoverOAuthEndpoints_def fetchJSON_def Let_def
  have eff: "fst ?d = [Fetch ?wk]"
    using origin href
    by (simp add: unfold split: fetch_result.splits sum.splits json_value.splits)
  have fails: "(\<exists>e. snd ?d = Throws e) \<longleftrightarrow> discovery_failure_condition w wellKnownUrl"
    using origin href
    by (auto simp: unfold discovery_failure_condition_def ok_def truthy_iff
        split: fetch_result.splits sum.splits json_value.splits)
  have rejected: "snd ?d = Throws (DiscoveryFailed wellKnownUrl msg)"
    if "fetch w ?wk = Rejected msg" for msg
    using that origin href by (simp add: unfold)
  have status: "snd ?d = Throws (DiscoveryFailed wellKnownUrl
              (''HTTP '' @ dec (status res) @ '' '' @ statusText res @ '' from '' @ wellKnownUrl
               @ (case body_text res of
                    None \<Rightarrow> []
                  | Some t \<Rightarrow> if t = [] then [] else '': '' @ t)))"
    if "fetch w ?wk = Response res" and "status res < 200 \<or> 299 < status res" for res
    using that origin href
    by (auto simp: unfold ok_def get_request_def split: option.splits)
  have not_json: "snd ?d = Throws (DiscoveryFailed wellKnownUrl msg)"
    if "fetch w ?wk = Response res" and "200 \<le> status res" and "status res \<le> 299"
      and "body_json res = Inl msg" for res msg
    using that origin href by (simp add: unfold ok_def)
  have null: "snd ?d = Throws (DiscoveryFailed wellKnownUrl
              (''Cannot read properties of null (reading '' @ [CHR 0x27]
               @ ''authorization_endpoint'' @ [CHR 0x27] @ '')''))"
    if "fetch w ?wk = Response res" and "200 \<le> status res" and "status res \<le> 299"
      and "body_json res = Inr JSON_null" for res
    using that origin href by (simp add: unfold ok_def)
  have missing: "snd ?d = Throws (DiscoveryFailed wellKnownUrl
              ''OAuth metadata missing required fields (authorization_endpoint, token_endpoint)'')"
    if "fetch w ?wk = Response res" and "200 \<le> status res" and "status res \<le> 299"
      and "body_json res = Inr (JSON_object fields numbers)"
      and "missing_or_empty (fields ''authorization_endpoint'')
           \<or> missing_or_empty (fields ''token_endpoint'')" for res fields numbers
    using that origin href by (auto simp: unfold ok_def truthy_iff)
  have wraps: "\<exists>cause. e = DiscoveryFailed wellKnownUrl cause
               \<and> message e = ''Failed to discover OAuth endpoints from '' @ wellKnownUrl
                                @ '': '' @ cause"
    if "snd ?d = Throws e" for e
    using that origin href
    by (auto simp: unfold split: fetch_result.splits sum.splits if_splits json_value.splits)
  have returns: "\<exists>res metadata endpoints.
               fetch w ?wk = Response res
               \<and> body_json res = Inr metadata
               \<and> snd ?d = Returns endpoints
               \<and> Some (authorizationEndpoint endpoints)
                    = string_field metadata ''authorization_endpoint''
               \<and> Some (tokenEndpoint endpoints) = string_field metadata ''token_endpoint''
               \<and> registrationEndpoint endpoints
                    = string_field metadata ''registration_endpoint''"
    if "\<not> discovery_failure_condition w wellKnownUrl"
    using that origin href
    by (auto simp: unfold discovery_failure_condition_def ok_def truthy_iff [symmetric]
          truthy_Some_the [symmetric]
        split: fetch_result.splits sum.splits json_value.splits)
  from eff fails rejected status not_json null missing wraps returns show ?thesis
    by blast
qed

theorem discoverOAuthEndpoints_outcome_witness:
  "URL_origin scenario ''https://ex.com/mcp'' = Some ''https://ex.com''
   \<and> URL_href scenario ''/.well-known/oauth-authorization-server'' ''https://ex.com''
       = Some ''https://ex.com/.well-known/oauth-authorization-server''
   \<and> fst (discoverOAuthEndpoints scenario ''https://ex.com/mcp'')
       = [Fetch (get_request ''https://ex.com/.well-known/oauth-authorization-server'')]
   \<and> snd (discoverOAuthEndpoints scenario ''https://ex.com/mcp'')
       = Returns \<lparr>authorizationEndpoint = ''https://ex.com/auth'',
                  tokenEndpoint = ''https://ex.com/token'',
                  registrationEndpoint = Some ''https://ex.com/register''\<rparr>
   \<and> discovery_failure_condition (scenario\<lparr>fetch := \<lambda>req. not_found\<rparr>)
        ''https://ex.com/.well-known/oauth-authorization-server''
   \<and> (\<exists>e. snd (discoverOAuthEndpoints (scenario\<lparr>fetch := \<lambda>req. not_found\<rparr>) ''https://ex.com/mcp'')
            = Throws e)
   \<and> snd (discoverOAuthEndpoints (scenario\<lparr>fetch := \<lambda>req. not_found\<rparr>) ''https://ex.com/mcp'')
       = Throws (DiscoveryFailed ''https://ex.com/.well-known/oauth-authorization-server''
           ''HTTP 404 Not Found from https://ex.com/.well-known/oauth-authorization-server'')
   \<and> snd (discoverOAuthEndpoints (scenario\<lparr>fetch := \<lambda>req. ok_response JSON_null\<rparr>)
            ''https://ex.com/mcp'')
       = Throws (DiscoveryFailed ''https://ex.com/.well-known/oauth-authorization-server''
           (''Cannot read properties of null (reading '' @ [CHR 0x27]
            @ ''authorization_endpoint'' @ [CHR 0x27] @ '')''))"
proof -
  let ?w = "scenario\<lparr>fetch := \<lambda>req. not_found\<rparr>"
  let ?n = "scenario\<lparr>fetch := \<lambda>req. ok_response JSON_null\<rparr>"
  let ?wk = "''https://ex.com/.well-known/oauth-authorization-server''"
  have origin: "URL_origin scenario ''https://ex.com/mcp'' = Some ''https://ex.com''"
    and href: "URL_href scenario ''/.well-known/oauth-authorization-server'' ''https://ex.com''
                 = Some ?wk"
    by (simp_all add: scenario_def)
  have origin': "URL_origin ?w ''https://ex.com/mcp'' = Some ''https://ex.com''"
    and href': "URL_href ?w ''/.well-known/oauth-authorization-server'' ''https://ex.com''
                 = Some ?wk"
    by (simp_all add: scenario_def)
  have origin'': "URL_origin ?n ''https://ex.com/mcp'' = Some ''https://ex.com''"
    and href'': "URL_href ?n ''/.well-known/oauth-authorization-server'' ''https://ex.com''
                 = Some ?wk"
    by (simp_all add: scenario_def)
  have success: "\<not> discovery_failure_condition scenario ?wk"
    by (simp add: discovery_failure_condition_def get_request_def scenario_defs)
  have fields: "string_field scenario_metadata ''authorization_endpoint'' = Some ''https://ex.com/auth''"
    "string_field scenario_metadata ''token_endpoint'' = Some ''https://ex.com/token''"
    "string_field scenario_metadata ''registration_endpoint'' = Some ''https://ex.com/register''"
    by (simp_all add: scenario_metadata_def)
  have answer: "fetch scenario (get_request ?wk) = ok_response scenario_metadata"
    by (simp add: scenario_def get_request_def)
  have failing: "discovery_failure_condition ?w ?wk"
    by (simp add: discovery_failure_condition_def scenario_defs)
  have not_found_answer: "fetch ?w (get_request ?wk) = Response
     \<lparr>status = 404, statusText = ''Not Found'', body_text = Some [],
      body_json = Inl ''Unexpected end of JSON input''\<rparr>"
    by (simp add: not_found_def)
  have null_answer: "fetch ?n (get_request ?wk) = Response
     \<lparr>status = 200, statusText = ''OK'', body_text = None, body_json = Inr JSON_null\<rparr>"
    by (simp add: ok_response_def)
  note here = discoverOAuthEndpoints_outcome [OF origin href]
  note there = discoverOAuthEndpoints_outcome [OF origin' href']
  note null = discoverOAuthEndpoints_outcome [OF origin'' href'']
  have requests: "fst (discoverOAuthEndpoints scenario ''https://ex.com/mcp'')
      = [Fetch (get_request ?wk)]"
    using here by blast
  have returned: "snd (discoverOAuthEndpoints scenario ''https://ex.com/mcp'')
       = Returns \<lparr>authorizationEndpoint = ''https://ex.com/auth'',
                  tokenEndpoint = ''https://ex.com/token'',
                  registrationEndpoint = Some ''https://ex.com/register''\<rparr>"
  proof -
    from here success obtain res metadata endpoints where
      "fetch scenario (get_request ?wk) = Response res" "body_json res = Inr metadata"
      "snd (discoverOAuthEndpoints scenario ''https://ex.com/mcp'') = Returns endpoints"
      "Some (authorizationEndpoint endpoints) = string_field metadata ''authorization_endpoint''"
      "Some (tokenEndpoint endpoints) = string_field metadata ''token_endpoint''"
      "registrationEndpoint endpoints = string_field metadata ''registration_endpoint''"
      by blast
    with answer fields show ?thesis
      by (cases endpoints) (auto simp: ok_response_def)
  qed
  have thrown_some: "\<exists>e. snd (discoverOAuthEndpoints ?w ''https://ex.com/mcp'') = Throws e"
    using there failing by blast
  have thrown: "snd (discoverOAuthEndpoints ?w ''https://ex.com/mcp'')
       = Throws (DiscoveryFailed ?wk
           ''HTTP 404 Not Found from https://ex.com/.well-known/oauth-authorization-server'')"
  proof -
    have "snd (discoverOAuthEndpoints ?w ''https://ex.com/mcp'')
       = Throws (DiscoveryFailed ?wk
           (''HTTP '' @ dec 404 @ '' '' @ ''Not Found'' @ '' from '' @ ?wk @ []))"
      using there not_found_answer by fastforce
    then show ?thesis
      by (simp add: dec_404)
  qed
  have thrown_null: "snd (discoverOAuthEndpoints ?n ''https://ex.com/mcp'')
       = Throws (DiscoveryFailed ?wk
           (''Cannot read properties of null (reading '' @ [CHR 0x27]
            @ ''authorization_endpoint'' @ [CHR 0x27] @ '')''))"
    using null null_answer by fastforce
  from origin href requests returned failing thrown_some thrown thrown_null
  show ?thesis by blast
qed

text \<open>
  Claim C8, as stated: \<^verbatim>\<open>exchangeCodeForTokens\<close> passes \<^verbatim>\<open>token_type\<close> through unchanged
  and substitutes \<^verbatim>\<open>Bearer\<close> only when the server omits the field. A server that sends
  the field as the empty string gets the default as well: the operator is \<^verbatim>\<open>||\<close>, which
  takes its right operand for every falsy left operand.
\<close>

theorem exchange_empty_token_type_defaulted:
  "string_field tokens_with_empty_type ''token_type'' = Some []
   \<and> snd (exchangeCodeForTokens (scenario\<lparr>fetch := \<lambda>req. ok_response tokens_with_empty_type\<rparr>)
            ''https://ex.com/token'' ''authcode1'' ''verifier'' ''cid123''
            ''http://localhost:19876/callback'')
       = Returns \<lparr>access_token = ''tok1'', refresh_token = None, expires_in = None,
                  response_scope = None, token_type = ''Bearer''\<rparr>"
  by (simp add: eval_defs scenario_defs Let_def snd_io_bind)

text \<open>
  Claim C8, amended. When the token endpoint answers with a 2xx status and a JSON body
  with a non-empty \<^verbatim>\<open>access_token\<close>, \<^verbatim>\<open>exchangeCodeForTokens\<close> returns the
  \<^verbatim>\<open>access_token\<close>, \<^verbatim>\<open>refresh_token\<close>, \<^verbatim>\<open>expires_in\<close> and \<^verbatim>\<open>scope\<close> of the body
  unchanged (absent when absent); \<^verbatim>\<open>token_type\<close> is \<^verbatim>\<open>Bearer\<close> when the body omits the
  field or has it empty, and the field of the body unchanged otherwise.
\<close>

theorem exchangeCodeForTokens_fields:
  assumes resp: "fetch w (token_request te c v ci ru) = Response res"
    and status_ok: "ok res"
    and json: "body_json res = Inr result"
    and token: "truthy (string_field result ''access_token'')"
  shows "\<exists>r. snd (exchangeCodeForTokens w te c v ci ru) = Returns r
       \<and> Some (access_token r) = string_field result ''access_token''
       \<and> refresh_token r = string_field result ''refresh_token''
       \<and> expires_in r = number_field result ''expires_in''
       \<and> response_scope r = string_field result ''scope''
       \<and> (missing_or_empty (string_field result ''token_type'') \<longrightarrow> token_type r = ''Bearer'')
       \<and> (\<not> missing_or_empty (string_field result ''token_type'')
            \<longrightarrow> Some (token_type r) = string_field result ''token_type'')"
  using assms truthy_not_null [OF token]
  by (auto simp: exchangeCodeForTokens_def fetchJSON_def Let_def snd_io_bind io_return_def
        io_throw_def truthy_iff truthy_Some_the [symmetric])

theorem exchangeCodeForTokens_fields_witness:
  "fetch (scenario\<lparr>fetch := \<lambda>req. ok_response tokens_with_all_fields\<rparr>)
      (token_request ''https://ex.com/token'' ''authcode1'' ''verifier'' ''cid123''
         ''http://localhost:19876/callback'')
     = ok_response tokens_with_all_fields
   \<and> truthy (string_field tokens_with_all_fields ''access_token'')
   \<and> \<not> missing_or_empty (string_field tokens_with_all_fields ''token_type'')
   \<and> (\<exists>r. snd (exchangeCodeForTokens (scenario\<lparr>fetch := \<lambda>req. ok_response tokens_with_all_fields\<rparr>)
              ''https://ex.com/token'' ''authcode1'' ''verifier'' ''cid123''
              ''http://localhost:19876/callback'') = Returns r
          \<and> access_token r = ''tok2'' \<and> refresh_token r = Some ''ref2''
          \<and> expires_in r = Some 60 \<and> response_scope r = Some ''files:read''
          \<and> token_type r = ''DPoP'')"
proof -
  let ?w = "scenario\<lparr>fetch := \<lambda>req. ok_response tokens_with_all_fields\<rparr>"
  let ?res = "\<lparr>status = 200, statusText = ''OK'', body_text = None,
               body_json = Inr tokens_with_all_fields\<rparr>"
  have resp: "fetch ?w (token_request ''https://ex.com/token'' ''authcode1'' ''verifier''
                ''cid123'' ''http://localhost:19876/callback'') = Response ?res"
    by (simp add: scenario_def ok_response_def)
  have status_ok: "ok ?res"
    by (simp add: ok_def)
  have json: "body_json ?res = Inr tokens_with_all_fields"
    by simp
  have token: "truthy (string_field tokens_with_all_fields ''access_token'')"
    by (simp add: tokens_with_all_fields_def)
  have fields: "string_field tokens_with_all_fields ''access_token'' = Some ''tok2''"
    "string_field tokens_with_all_fields ''refresh_token'' = Some ''ref2''"
    "string_field tokens_with_all_fields ''scope'' = Some ''files:read''"
    "string_field tokens_with_all_fields ''token_type'' = Some ''DPoP''"
    "number_field tokens_with_all_fields ''expires_in'' = Some 60"
    by (simp_all add: tokens_with_all_fields_def)
  from exchangeCodeForTokens_fields [OF resp status_ok json token] resp token fields
  show ?thesis
    by (auto simp: ok_response_def)
qed

section \<open>The claim about the auth store\<close>

text \<open>
  Claim C10. \<^verbatim>\<open>readAuthFile\<close> has no failing result: its \<^verbatim>\<open>catch\<close> takes every exception
  of the body. Whatever the path, when reading the file fails (the file is missing or
  unreadable) or when the content read is not JSON, the result is the empty mapping, and
  these are the only cases in which the body throws.
\<close>

theorem readAuthFile_failure_yields_empty:
  "((\<exists>msg. readFileSync w path = Inl msg) \<longrightarrow> readAuthFile w path = Map.empty)
   \<and> ((\<exists>content msg. readFileSync w path = Inr content \<and> JSON_parse w content = Inl msg)
        \<longrightarrow> readAuthFile w path = Map.empty)
   \<and> ((\<exists>err. readAuthFile_try w path = Inl err) \<longleftrightarrow>
        (\<exists>msg. readFileSync w path = Inl msg)
        \<or> (\<exists>content msg. readFileSync w path = Inr content \<and> JSON_parse w content = Inl msg))"
  by (auto simp: readAuthFile_def readAuthFile_try_def split: sum.splits)

theorem readAuthFile_failure_witness:
  "readFileSync (scenario\<lparr>readFileSync := \<lambda>path. Inl ''ENOENT: no such file or directory''\<rparr>)
      ''/data/mcp-auth.json'' = Inl ''ENOENT: no such file or directory''
   \<and> readAuthFile (scenario\<lparr>readFileSync := \<lambda>path. Inl ''ENOENT: no such file or directory''\<rparr>)
      ''/data/mcp-auth.json'' = Map.empty
   \<and> readFileSync (scenario\<lparr>JSON_parse := \<lambda>content. Inl ''Unexpected token''\<rparr>)
      ''/data/mcp-auth.json'' = Inr ''{...}''
   \<and> JSON_parse (scenario\<lparr>JSON_parse := \<lambda>content. Inl ''Unexpected token''\<rparr>) ''{...}''
       = Inl ''Unexpected token''
   \<and> readAuthFile (scenario\<lparr>JSON_parse := \<lambda>content. Inl ''Unexpected token''\<rparr>)
      ''/data/mcp-auth.json'' = Map.empty"
proof -
  let ?missing = "scenario\<lparr>readFileSync := \<lambda>path. Inl ''ENOENT: no such file or directory''\<rparr>"
  let ?broken = "scenario\<lparr>JSON_parse := \<lambda>content. Inl ''Unexpected token''\<rparr>"
  have unread: "readFileSync ?missing ''/data/mcp-auth.json''
                  = Inl ''ENOENT: no such file or directory''"
    by simp
  have read: "readFileSync ?broken ''/data/mcp-auth.json'' = Inr ''{...}''"
    by (simp add: scenario_def)
  have unparsed: "JSON_parse ?broken ''{...}'' = Inl ''Unexpected token''"
    by simp
  show ?thesis
    using readAuthFile_failure_yields_empty [of ?missing "''/data/mcp-auth.json''"]
      readAuthFile_failure_yields_empty [of ?broken "''/data/mcp-auth.json''"]
      unread read unparsed
    by blast
qed

section \<open>The claims about the flow\<close>

text \<open>
  Claim C6. In every flow in which endpoint discovery returns endpoints without a
  \<^verbatim>\<open>registration_endpoint\<close>, \<^verbatim>\<open>main\<close> throws the error that says the server does not
  support dynamic client registration, and the effects of the flow are those of discovery
  alone: every request made is a \<^verbatim>\<open>GET\<close> without a body, so no registration request is
  sent.
\<close>

theorem missing_registration_endpoint_fails_before_registration:
  assumes discovered: "snd (discoverOAuthEndpoints w (url cfg)) = Returns endpoints"
    and missing: "registrationEndpoint endpoints = None"
  shows "snd (main w cfg) = Throws NoRegistrationEndpoint
       \<and> fst (main w cfg) = fst (discoverOAuthEndpoints w (url cfg))
       \<and> (\<forall>r. Fetch r \<in> set (fst (main w cfg)) \<longrightarrow> req_method r = ''GET'' \<and> req_body r = None)"
proof -
  have run: "snd (main w cfg) = Throws NoRegistrationEndpoint
       \<and> fst (main w cfg) = fst (discoverOAuthEndpoints w (url cfg))"
    unfolding main_def Let_def
    using assms by (simp add: fst_io_bind snd_io_bind cong: completion.case_cong_weak)
  moreover have "req_method r = ''GET'' \<and> req_body r = None"
    if "Fetch r \<in> set (fst (discoverOAuthEndpoints w (url cfg)))" for r
    using that discover_effects [of w "url cfg"] by (auto simp: get_request_def)
  ultimately show ?thesis by simp
qed

theorem missing_registration_endpoint_witness:
  "snd (discoverOAuthEndpoints (scenario\<lparr>fetch := \<lambda>req. ok_response metadata_without_registration\<rparr>)
          (url figma))
     = Returns \<lparr>authorizationEndpoint = ''https://ex.com/auth'',
                tokenEndpoint = ''https://ex.com/token'', registrationEndpoint = None\<rparr>
   \<and> snd (main (scenario\<lparr>fetch := \<lambda>req. ok_response metadata_without_registration\<rparr>) figma)
       = Throws NoRegistrationEndpoint
   \<and> fst (main (scenario\<lparr>fetch := \<lambda>req. ok_response metadata_without_registration\<rparr>) figma)
       = [Fetch (get_request ''https://ex.com/.well-known/oauth-authorization-server'')]"
proof -
  let ?w = "scenario\<lparr>fetch := \<lambda>req. ok_response metadata_without_registration\<rparr>"
  let ?endpoints = "\<lparr>authorizationEndpoint = ''https://ex.com/auth'',
                     tokenEndpoint = ''https://ex.com/token'', registrationEndpoint = None\<rparr>"
  have discovered: "snd (discoverOAuthEndpoints ?w (url figma)) = Returns ?endpoints"
    by (simp add: eval_defs scenario_defs Let_def)
  have missing: "registrationEndpoint ?endpoints = None"
    by simp
  have requests: "fst (discoverOAuthEndpoints ?w (url figma))
      = [Fetch (get_request ''https://ex.com/.well-known/oauth-authorization-server'')]"
    by (simp add: eval_defs scenario_defs Let_def)
  from missing_registration_endpoint_fails_before_registration [OF discovered missing]
    discovered requests
  show ?thesis by simp
qed

text \<open>
  Claim C1. In every flow that starts the callback listener and whose listener resolves
  with a code and a state, if that state differs from the state generated for the flow
  then \<^verbatim>\<open>main\<close> throws the state-mismatch error, and no request of the flow carries a
  form-encoded body: the token request, the only such request of the program, is never
  made.
\<close>

theorem state_mismatch_fails_before_token_exchange:
  assumes reached: "Listen (callbackPort cfg) \<in> set (fst (main w cfg))"
    and delivered: "awaited (startCallbackServer (callbackPort cfg) (listen w (callbackPort cfg))
                      (callback_events w)) = Returns cb"
    and differs: "CallbackResult.state cb \<noteq> randomUUID w"
  shows "snd (main w cfg) = Throws StateMismatch
       \<and> (\<forall>r params. Fetch r \<in> set (fst (main w cfg)) \<longrightarrow> req_body r \<noteq> Some (FormBody params))"
proof -
  have "snd (main w cfg) = Throws StateMismatch"
    using assms unfolding main_def Let_def
    by (auto simp: in_fst_io_bind snd_io_bind build_effects
          no_listen_discover no_listen_register no_listen_write no_listen_open
        cong: completion.case_cong_weak
        split: if_splits)
  moreover have "req_body r \<noteq> Some (FormBody params)"
    if "Fetch r \<in> set (fst (main w cfg))" for r params
    using that delivered differs unfolding main_def Let_def
    by (auto simp: in_fst_io_bind snd_io_bind build_effects no_fetch_write no_fetch_open
        dest: no_form_discover no_form_register
        split: if_splits)
  ultimately show ?thesis by blast
qed

theorem state_mismatch_witness:
  "Listen 19876 \<in> set (fst (main (scenario\<lparr>callback_events := [Incoming forged_callback]\<rparr>) figma))
   \<and> awaited (startCallbackServer 19876 None [Incoming forged_callback])
       = Returns \<lparr>code = ''abc'', state = ''X''\<rparr>
   \<and> ''X'' \<noteq> randomUUID (scenario\<lparr>callback_events := [Incoming forged_callback]\<rparr>)
   \<and> snd (main (scenario\<lparr>callback_events := [Incoming forged_callback]\<rparr>) figma)
       = Throws StateMismatch"
proof -
  let ?w = "scenario\<lparr>callback_events := [Incoming forged_callback]\<rparr>"
  let ?cb = "\<lparr>code = ''abc'', state = ''X''\<rparr>"
  have reached: "Listen (callbackPort figma) \<in> set (fst (main ?w figma))"
    unfolding main_def Let_def
    by (simp add: fst_io_bind snd_io_bind eval_defs scenario_defs Let_def
        cong: completion.case_cong_weak)
  have delivered: "awaited (startCallbackServer (callbackPort figma) (listen ?w (callbackPort figma))
                     (callback_events ?w)) = Returns ?cb"
    by (simp add: eval_defs scenario_defs Let_def)
  have differs: "CallbackResult.state ?cb \<noteq> randomUUID ?w"
    by (simp add: scenario_def)
  from state_mismatch_fails_before_token_exchange [OF reached delivered differs]
    reached delivered differs
  show ?thesis
    by (simp add: figma_def scenario_def)
qed

text \<open>
  Claim C9. Every document written during a flow for a server-name agrees with the mapping
  read at the start of the flow on every other key: an entry present under another key is
  written back unchanged, and no entry appears under another key.
\<close>

theorem writes_leave_other_entries_unchanged:
  assumes "WriteFile p d m \<in> set (fst (main w cfg))" and "k \<noteq> serverName cfg"
  shows "d k = readAuthFile w (output_path cfg) k"
  using assms unfolding main_def Let_def
  by (auto simp: in_fst_io_bind build_effects no_write_discover no_write_register no_write_open
        no_write_exchange assign_frame
      dest!: write_write split: if_splits)

lemma scenario_written:
  "map (\<lambda>d. (d ''other'', map_option tokens (d ''figma''))) (written (fst (main scenario figma)))
     = [(Some other_entry, Some None),
        (Some other_entry,
         Some (Some \<lparr>accessToken = ''tok1'', refreshToken = None,
                     expiresAt = Some 1700003600, scope = None\<rparr>))]"
  unfolding main_def Let_def
  by (simp add: fst_io_bind snd_io_bind eval_defs scenario_defs Let_def
      cong: completion.case_cong_weak)

theorem writes_leave_other_entries_unchanged_witness:
  "written (fst (main scenario figma)) \<noteq> []
   \<and> ''other'' \<noteq> serverName figma
   \<and> readAuthFile scenario (output_path figma) ''other'' = Some other_entry
   \<and> hd (written (fst (main scenario figma))) ''other'' = Some other_entry
   \<and> last (written (fst (main scenario figma))) ''other'' = Some other_entry"
proof -
  let ?docs = "written (fst (main scenario figma))"
  have nonempty: "?docs \<noteq> []"
    using scenario_written by auto
  have other: "''other'' \<noteq> serverName figma"
    by (simp add: figma_def)
  have before: "readAuthFile scenario (output_path figma) ''other'' = Some other_entry"
    by (simp add: eval_defs scenario_def)
  have "d ''other'' = readAuthFile scenario (output_path figma) ''other''" if "d \<in> set ?docs" for d
  proof -
    from that obtain p m where "WriteFile p d m \<in> set (fst (main scenario figma))"
      using in_written by blast
    then show ?thesis
      using other by (rule writes_leave_other_entries_unchanged)
  qed
  with nonempty before other show ?thesis
    by simp
qed

text \<open>
  The auth file read is a mapping here, as the cast of \<^verbatim>\<open>readAuthFile\<close> has it (a file
  whose content is JSON but no object is outside this statement).
  For every server-name but one, a flow that returns has written two documents: the entry
  of the first under the server-name has both transient fields and no tokens, the entry of
  the second has no \<^verbatim>\<open>codeVerifier\<close>, no \<^verbatim>\<open>oauthState\<close> and tokens with a non-empty
  \<^verbatim>\<open>accessToken\<close>. The exception is the server-name \<^verbatim>\<open>__proto__\<close> when the file read at
  the start has no entry under that name.
\<close>

lemma successful_flow_entry:
  assumes returned: "snd (main w cfg) = Returns ()"
    and key: "serverName cfg \<noteq> ''__proto__''
              \<or> readAuthFile w (output_path cfg) (serverName cfg) \<noteq> None"
  shows "\<exists>checkpoint final e0 e t.
           written (fst (main w cfg)) = [checkpoint, final]
         \<and> checkpoint (serverName cfg) = Some e0
         \<and> entry_codeVerifier e0 \<noteq> None \<and> oauthState e0 \<noteq> None \<and> tokens e0 = None
         \<and> final (serverName cfg) = Some e
         \<and> entry_codeVerifier e = None \<and> oauthState e = None
         \<and> tokens e = Some t \<and> accessToken t \<noteq> []"
  using assms unfolding main_def Let_def
  apply (clarsimp simp: snd_io_bind_Returns fst_io_bind written_write split: if_splits
           cong: completion.case_cong_weak)
  apply (auto simp: assign_hit assign_present written_write dest: exchange_access_token)
  done

text \<open>
  Claim C3 at the server-name \<^verbatim>\<open>__proto__\<close>, with an auth file that has no entry under that
  name: the flow returns, and neither of the two documents written has an entry under the
  server-name. The assignment \<^verbatim>\<open>authData[config.serverName] = entry\<close> has set the prototype
  of the object instead of a property, and \<^verbatim>\<open>JSON.stringify\<close> writes own properties only.
  The entry of the other server is written back as it was read.
\<close>

theorem proto_server_name_stores_no_entry:
  "snd (main scenario (figma\<lparr>serverName := ''__proto__''\<rparr>)) = Returns ()
   \<and> map (\<lambda>d. (d ''__proto__'', d ''other''))
        (written (fst (main scenario (figma\<lparr>serverName := ''__proto__''\<rparr>))))
       = [(None, Some other_entry), (None, Some other_entry)]"
proof -
  have "snd (main scenario (figma\<lparr>serverName := ''__proto__''\<rparr>)) = Returns ()"
    unfolding main_def Let_def
    by (simp add: snd_io_bind eval_defs scenario_defs Let_def cong: completion.case_cong_weak)
  moreover have "map (\<lambda>d. (d ''__proto__'', d ''other''))
        (written (fst (main scenario (figma\<lparr>serverName := ''__proto__''\<rparr>))))
       = [(None, Some other_entry), (None, Some other_entry)]"
    unfolding main_def Let_def
    by (simp add: fst_io_bind snd_io_bind eval_defs scenario_defs Let_def
        cong: completion.case_cong_weak)
  ultimately show ?thesis by simp
qed

section \<open>The flow always ends\<close>

lemma snd_io_bind_Pending:
  "snd (io_bind m f) = Pending
     \<longleftrightarrow> snd m = Pending \<or> (\<exists>a. snd m = Returns a \<and> snd (f a) = Pending)"
  by (cases m) (auto simp: io_bind_def split: completion.splits prod.splits)

lemma fetchJSON_settles: "snd (fetchJSON w req) \<noteq> Pending"
  by (simp add: fetchJSON_def Let_def split: fetch_result.splits sum.splits)

lemma fetchJSON_not_pending: "fetchJSON w req \<noteq> (es, Pending)"
  using fetchJSON_settles [of w req] by auto

lemma discover_settles: "snd (discoverOAuthEndpoints w u) \<noteq> Pending"
  by (auto simp: discoverOAuthEndpoints_def Let_def fetchJSON_not_pending
      split: option.splits prod.splits completion.splits json_value.splits)

lemma register_settles: "snd (registerClient w re ru cn) \<noteq> Pending"
  by (simp add: registerClient_def Let_def snd_io_bind_Pending fetchJSON_settles)

lemma exchange_settles: "snd (exchangeCodeForTokens w a b c d e) \<noteq> Pending"
  by (simp add: exchangeCodeForTokens_def Let_def snd_io_bind_Pending fetchJSON_settles)

lemma write_settles: "snd (writeAuthFile w d p) \<noteq> Pending"
  by (auto simp: writeAuthFile_def Let_def snd_io_bind_Pending io_throw_def io_return_def
      split: option.splits)

lemma build_settles: "snd (buildAuthorizationUrl w a b c d e) \<noteq> Pending"
  by (simp add: buildAuthorizationUrl_def split: option.splits)

lemma open_settles: "snd (openBrowser w u) \<noteq> Pending"
  by (simp add: openBrowser_def Let_def)

text \<open>
  \<^verbatim>\<open>main\<close> throws or returns in every world: no step stays pending, the promise of the
  callback listener included, since its timer fires unless an outcome was delivered before.
\<close>

lemma main_not_pending: "snd (main w cfg) \<noteq> Pending"
  unfolding main_def Let_def
  by (simp add: snd_io_bind_Pending discover_settles register_settles exchange_settles
        write_settles build_settles open_settles awaited_not_pending)

end
